theory Spec2Isabelle
  imports Main "HOL-Library.Sublist"
begin

section \<open>Python values\<close>

text \<open>
  The policy document is what \<^verbatim>\<open>json.load\<close> returns: nested dicts and lists of untyped
  values. A dict is kept as an association list in insertion order, with each key once.
  JSON numbers are integers here; a JSON float behaves like \<open>JInt\<close> in every operation
  of the policy engine (it is not subscriptable, not a container, and unequal to every str).
\<close>

datatype json =
    JNull
  | JBool bool
  | JInt int
  | JStr string
  | JList "json list"
  | JDict "(string \<times> json) list"

text \<open>
  An f-string is kept as the list of its parts: literal text, a value that Python renders
  with \<^verbatim>\<open>str\<close> (which for a str is the str itself), or the text of an exception that the
  interpreter raised.

  The exceptions: \<open>PolicyViolationError\<close> carries, in this order, the message and the
  attributes \<^verbatim>\<open>tool_name\<close>, \<^verbatim>\<open>mode\<close> and \<^verbatim>\<open>reason\<close>; \<open>OtherException\<close> is an
  exception of any other class that is not a \<^verbatim>\<open>TypeError\<close>, with its text.
\<close>

datatype part = Text string | Str json | StrExn exn
  and exn =
    FileNotFoundError string
  | JSONDecodeError
  | AttributeError
  | KeyError string
  | TypeError
  | ValueError "part list"
  | PolicyViolationError "part list" string string string
  | OtherException "part list"

type_synonym message = "part list"

definition quoted :: "string \<Rightarrow> string" where
  "quoted s = [CHR 0x27] @ s @ [CHR 0x27]"

text \<open>
  \<^verbatim>\<open>str(e)\<close>: the message an exception was constructed with, where the source constructs
  it.
\<close>

fun str_exn :: "exn \<Rightarrow> message" where
  "str_exn (FileNotFoundError s) = [Text s]"
| "str_exn (ValueError m) = m"
| "str_exn (PolicyViolationError m t md r) = m"
| "str_exn (OtherException m) = m"
| "str_exn e = [StrExn e]"

text \<open>\<^verbatim>\<open>obj[key]\<close> with a str key.\<close>

fun getitem :: "json \<Rightarrow> string \<Rightarrow> exn + json" where
  "getitem (JDict kvs) k = (case map_of kvs k of None \<Rightarrow> Inl (KeyError k) | Some v \<Rightarrow> Inr v)"
| "getitem _ k = Inl TypeError"

text \<open>
  \<^verbatim>\<open>key in obj\<close> with a str key: a key of a dict, an element of a list, a substring of a
  str; the other values are not containers.
\<close>

fun contains :: "json \<Rightarrow> string \<Rightarrow> exn + bool" where
  "contains (JDict kvs) k = Inr (k \<in> set (map fst kvs))"
| "contains (JList xs) k = Inr (JStr k \<in> set xs)"
| "contains (JStr s) k = Inr (sublist k s)"
| "contains _ k = Inl TypeError"

text \<open>\<^verbatim>\<open>list(obj.keys())\<close>.\<close>

fun keys_list :: "json \<Rightarrow> exn + json" where
  "keys_list (JDict kvs) = Inr (JList (map (JStr \<circ> fst) kvs))"
| "keys_list _ = Inl AttributeError"

section \<open>The policy engine\<close>

text \<open>
  The file system as \<^verbatim>\<open>_load_policy\<close> sees it: a path has no file, or a file whose text
  \<^verbatim>\<open>json.load\<close> rejects, or a file whose text it parses to a value. A file that exists
  can be opened and read.
\<close>

datatype policy_file = Malformed | Parsed json

type_synonym filesystem = "string \<rightharpoonup> policy_file"

record policy_engine =
  policy_path :: string
  policy :: json
  current_mode :: string

text \<open>
  \<^verbatim>\<open>_load_policy\<close>. The two prints call \<^verbatim>\<open>policy.get\<close>, which only a dict has; what they
  print is not modelled.
\<close>

definition load_policy :: "filesystem \<Rightarrow> string \<Rightarrow> exn + json" where
  "load_policy fs path =
     (case fs path of
        None \<Rightarrow> Inl (FileNotFoundError (''Policy file not found: '' @ path))
      | Some Malformed \<Rightarrow> Inl JSONDecodeError
      | Some (Parsed p) \<Rightarrow>
          (case p of JDict kvs \<Rightarrow> Inr p | _ \<Rightarrow> Inl AttributeError))"

text \<open>\<^verbatim>\<open>PolicyEngine.__init__\<close>: an exception of the load leaves no engine.\<close>

definition PolicyEngine :: "filesystem \<Rightarrow> string \<Rightarrow> exn + policy_engine" where
  "PolicyEngine fs path =
     (case load_policy fs path of
        Inl e \<Rightarrow> Inl e
      | Inr p \<Rightarrow> Inr \<lparr>policy_path = path, policy = p, current_mode = ''NORMAL''\<rparr>)"

text \<open>
  \<^verbatim>\<open>set_mode\<close> returns the exception it raises, if any, and the engine it leaves. The
  assignment comes before the print of the mode's description, so an exception of that
  print leaves the new mode in place.
\<close>

definition set_mode :: "policy_engine \<Rightarrow> string \<Rightarrow> (exn + unit) \<times> policy_engine" where
  "set_mode e m =
     (case getitem (policy e) ''modes'' of
        Inl x \<Rightarrow> (Inl x, e)
      | Inr modes \<Rightarrow>
          (case contains modes m of
             Inl x \<Rightarrow> (Inl x, e)
           | Inr False \<Rightarrow>
               (case keys_list modes of
                  Inl x \<Rightarrow> (Inl x, e)
                | Inr ks \<Rightarrow>
                    (Inl (ValueError
                       [Text (''Invalid mode: '' @ m @ ''. Available: ''), Str ks]), e))
           | Inr True \<Rightarrow>
               (let e' = e\<lparr>current_mode := m\<rparr> in
                (case getitem modes m of
                   Inl x \<Rightarrow> (Inl x, e')
                 | Inr rules \<Rightarrow>
                     (case getitem rules ''description'' of
                        Inl x \<Rightarrow> (Inl x, e')
                      | Inr d \<Rightarrow> (Inr (), e'))))))"

definition get_current_mode :: "policy_engine \<Rightarrow> string" where
  "get_current_mode e = current_mode e"

text \<open>
  \<^verbatim>\<open>validate\<close>: \<open>Inr True\<close> when the tool is allowed, \<open>Inl\<close> the exception otherwise. The
  arguments \<^verbatim>\<open>args\<close> and \<^verbatim>\<open>context\<close> default to \<^verbatim>\<open>None\<close> and are replaced by an empty dict
  when they are \<^verbatim>\<open>None\<close> or empty; nothing reads them afterwards.
\<close>

definition or_empty :: "(string \<times> json) list option \<Rightarrow> (string \<times> json) list" where
  "or_empty d = (case d of None \<Rightarrow> [] | Some kvs \<Rightarrow> kvs)"

definition validate ::
  "policy_engine \<Rightarrow> string \<Rightarrow> (string \<times> json) list option \<Rightarrow>
     (string \<times> json) list option \<Rightarrow> exn + bool" where
  "validate e tool_name args context =
     (let args = or_empty args; context = or_empty context in
      case getitem (policy e) ''global_rules'' of
        Inl x \<Rightarrow> Inl x
      | Inr global_rules \<Rightarrow>
     (case getitem global_rules ''always_blocked'' of
        Inl x \<Rightarrow> Inl x
      | Inr always_blocked \<Rightarrow>
     (case contains always_blocked tool_name of
        Inl x \<Rightarrow> Inl x
      | Inr True \<Rightarrow>
          Inl (PolicyViolationError
                 [Text (''Tool '' @ quoted tool_name @
                        '' is globally blocked and can never be executed'')]
                 tool_name (current_mode e) ''Globally blocked - destructive operation'')
      | Inr False \<Rightarrow>
     (case getitem (policy e) ''modes'' of
        Inl x \<Rightarrow> Inl x
      | Inr modes \<Rightarrow>
     (case getitem modes (current_mode e) of
        Inl x \<Rightarrow> Inl x
      | Inr mode_policy \<Rightarrow>
     (case getitem mode_policy ''allowed_tools'' of
        Inl x \<Rightarrow> Inl x
      | Inr allowed_tools \<Rightarrow>
     (case getitem mode_policy ''blocked_tools'' of
        Inl x \<Rightarrow> Inl x
      | Inr blocked_tools \<Rightarrow>
     (case contains blocked_tools tool_name of
        Inl x \<Rightarrow> Inl x
      | Inr True \<Rightarrow>
          (case getitem mode_policy ''rationale'' of
             Inl x \<Rightarrow> Inl x
           | Inr rationale \<Rightarrow>
               Inl (PolicyViolationError
                      [Text (''Tool '' @ quoted tool_name @
                                   '' is blocked in '' @ current_mode e @
                                   '' mode. Rationale: ''), Str rationale]
                      tool_name (current_mode e)
                      (''Blocked in '' @ current_mode e @ '' mode'')))
      | Inr False \<Rightarrow>
     (case contains allowed_tools tool_name of
        Inl x \<Rightarrow> Inl x
      | Inr False \<Rightarrow>
          Inl (PolicyViolationError
                 [Text (''Tool '' @ quoted tool_name @
                        '' is not in the allowed list for '' @ current_mode e @ '' mode'')]
                 tool_name (current_mode e)
                 (''Not whitelisted for '' @ current_mode e @ '' mode''))
      | Inr True \<Rightarrow> Inr True)))))))))"

section \<open>The mock infrastructure\<close>

text \<open>
  \<^verbatim>\<open>CloudInfrastructure\<close>: the services and their health, the fleet size and the audit
  trail. An entry of the trail is the dict \<^verbatim>\<open>{"timestamp", "action", "details"}\<close>.
\<close>

record log_entry =
  timestamp :: string
  action :: string
  details :: "(string \<times> json) list"

record cloud_infrastructure =
  services :: "(string \<times> string) list"
  fleet_size :: int
  execution_log :: "log_entry list"

definition CloudInfrastructure :: cloud_infrastructure where
  "CloudInfrastructure =
     \<lparr>services = [(''web-server'', ''healthy''), (''api-gateway'', ''healthy''),
                  (''database'', ''healthy''), (''cache'', ''healthy'')],
      fleet_size = 3,
      execution_log = []\<rparr>"

text \<open>
  \<^verbatim>\<open>_log_action\<close>. The reading of the clock, \<^verbatim>\<open>datetime.now().isoformat()\<close>, is an
  argument.
\<close>

definition log_action ::
  "cloud_infrastructure \<Rightarrow> string \<Rightarrow> string \<Rightarrow> (string \<times> json) list \<Rightarrow>
     cloud_infrastructure" where
  "log_action infra now act det =
     infra\<lparr>execution_log :=
       execution_log infra @ [\<lparr>timestamp = now, action = act, details = det\<rparr>]\<rparr>"

text \<open>
  A value of a result dict: a str, an int, or an f-string with parts that are not str.
\<close>

datatype field = FStr string | FInt int | FFmt message

text \<open>
  \<^verbatim>\<open>CloudInfrastructure.scale_fleet\<close>, with \<^verbatim>\<open>count\<close> an int as annotated. It reads the
  clock once for the audit entry (\<open>now\<close>) and once more for the result of a successful
  call (\<open>now'\<close>). The prints are not modelled.
\<close>

definition scale_fleet ::
  "cloud_infrastructure \<Rightarrow> string \<Rightarrow> string \<Rightarrow> int \<Rightarrow>
     (string \<times> field) list \<times> cloud_infrastructure" where
  "scale_fleet infra now now' count =
     (let infra = log_action infra now ''scale_fleet'' [(''target_count'', JInt count)] in
      if count < 1 then
        ([(''status'', FStr ''error''),
          (''message'', FStr ''Fleet size must be at least 1'')], infra)
      else if count > 100 then
        ([(''status'', FStr ''error''),
          (''message'', FStr ''Fleet size cannot exceed 100 instances'')], infra)
      else
        (let old_size = fleet_size infra;
             infra = infra\<lparr>fleet_size := count\<rparr>
         in ([(''status'', FStr ''success''),
              (''action'', FStr ''scale''),
              (''old_size'', FInt old_size),
              (''new_size'', FInt count),
              (''message'', FFmt [Text ''Fleet scaled from '', Str (JInt old_size),
                               Text '' to '', Str (JInt count), Text '' instances'']),
              (''timestamp'', FStr now')], infra)))"

section \<open>The tool server\<close>

text \<open>
  \<^verbatim>\<open>ToolRequest\<close> and \<^verbatim>\<open>ToolResponse\<close>. The result of a tool is of any type.
\<close>

record tool_request =
  tool_name :: string
  arguments :: "(string \<times> json) list"
  request_context :: "(string \<times> json) list option"

record 'r tool_response =
  success :: bool
  result :: "'r option"
  error :: "message option"
  policy_violation :: bool
  blocked_reason :: "message option"

text \<open>
  The six functions that \<^verbatim>\<open>tool_map\<close> routes to are imported from the tools module. The
  server is modelled for any six callables: each takes the keyword arguments and the state
  it acts on, and returns its result or the exception it raises, and the state it leaves.
  What is proved of the server then holds whatever the tools do.
\<close>

type_synonym ('s, 'r) tool = "(string \<times> json) list \<Rightarrow> 's \<Rightarrow> (exn + 'r) \<times> 's"

record ('s, 'r) tools =
  tool_get_service_status :: "('s, 'r) tool"
  tool_read_logs :: "('s, 'r) tool"
  tool_restart_service :: "('s, 'r) tool"
  tool_scale_fleet :: "('s, 'r) tool"
  tool_delete_database :: "('s, 'r) tool"
  tool_list_services :: "('s, 'r) tool"

definition tool_map :: "('s, 'r) tools \<Rightarrow> (string \<times> ('s, 'r) tool) list" where
  "tool_map ts =
     [(''get_service_status'', tool_get_service_status ts),
      (''read_logs'', tool_read_logs ts),
      (''restart_service'', tool_restart_service ts),
      (''scale_fleet'', tool_scale_fleet ts),
      (''delete_database'', tool_delete_database ts),
      (''list_services'', tool_list_services ts)]"

text \<open>
  \<^verbatim>\<open>_execute_tool_function\<close>: a \<^verbatim>\<open>TypeError\<close> of the call is raised again as a
  \<^verbatim>\<open>ValueError\<close>, any other exception passes through.
\<close>

definition execute_tool_function ::
  "('s, 'r) tools \<Rightarrow> string \<Rightarrow> (string \<times> json) list \<Rightarrow> 's \<Rightarrow> (exn + 'r) \<times> 's" where
  "execute_tool_function ts name args s =
     (case map_of (tool_map ts) name of
        None \<Rightarrow> (Inl (ValueError [Text (''Unknown tool: '' @ name)]), s)
      | Some tool_function \<Rightarrow>
          (case tool_function args s of
             (Inr r, s') \<Rightarrow> (Inr r, s')
           | (Inl x, s') \<Rightarrow>
               (case x of
                  TypeError \<Rightarrow>
                    (Inl (ValueError
                       (Text (''Invalid arguments for '' @ name @ '': '') # str_exn x)), s')
                | _ \<Rightarrow> (Inl x, s'))))"

text \<open>
  \<^verbatim>\<open>execute_tool\<close>, on the policy engine of the server and the state the tools act on.
  Only a \<^verbatim>\<open>PolicyViolationError\<close> of the validation is caught; any other exception of it
  leaves the endpoint. Every exception of the dispatch is caught.
\<close>

definition execute_tool ::
  "('s, 'r) tools \<Rightarrow> policy_engine \<Rightarrow> tool_request \<Rightarrow> 's \<Rightarrow>
     (exn + 'r tool_response) \<times> 's" where
  "execute_tool ts pe request s =
     (case validate pe (tool_name request) (Some (arguments request)) (request_context request) of
        Inl x \<Rightarrow>
          (case x of
             PolicyViolationError msg t md reason \<Rightarrow>
               (Inr \<lparr>success = False, result = None,
                      error = Some [Text (''Policy violation: '' @ reason)],
                      policy_violation = True, blocked_reason = Some (str_exn x)\<rparr>, s)
           | _ \<Rightarrow> (Inl x, s))
      | Inr ok \<Rightarrow>
          (case execute_tool_function ts (tool_name request) (arguments request) s of
             (Inr r, s') \<Rightarrow>
               (Inr \<lparr>success = True, result = Some r, error = None,
                      policy_violation = False, blocked_reason = None\<rparr>, s')
           | (Inl x, s') \<Rightarrow>
               (Inr \<lparr>success = False, result = None,
                      error = Some (Text ''Execution error: '' # str_exn x),
                      policy_violation = False, blocked_reason = None\<rparr>, s')))"

section \<open>Reachable engines\<close>

text \<open>
  The engines a process can hold: the one the constructor returns, and whatever
  \<^verbatim>\<open>set_mode\<close> leaves, whether or not it raised. No other method assigns to the engine.
\<close>

inductive reachable :: "filesystem \<Rightarrow> string \<Rightarrow> policy_engine \<Rightarrow> bool"
  for fs :: filesystem and path :: string where
  constructed: "PolicyEngine fs path = Inr e \<Longrightarrow> reachable fs path e"
| mode_set: "reachable fs path e \<Longrightarrow> reachable fs path (snd (set_mode e m))"

section \<open>Decisions\<close>

text \<open>
  C1. A tool that is in \<^verbatim>\<open>global_rules.always_blocked\<close> is denied with the reason
  "Globally blocked - destructive operation", whatever the current mode and whatever the
  modes say: nothing is assumed of the \<^verbatim>\<open>modes\<close> part of the policy, which may allow the
  tool or be missing, because the global check comes first.
\<close>

theorem validate_globally_blocked:
  assumes "getitem (policy e) ''global_rules'' = Inr global_rules"
    and "getitem global_rules ''always_blocked'' = Inr always_blocked"
    and "contains always_blocked t = Inr True"
  shows "validate e t args context =
           Inl (PolicyViolationError
                  [Text (''Tool '' @ quoted t @
                         '' is globally blocked and can never be executed'')]
                  t (current_mode e) ''Globally blocked - destructive operation'')"
  using assms by (simp add: validate_def)

theorem validate_globally_blocked_witness:
  "validate
     \<lparr>policy_path = ''policies/ops_policy.json'',
      policy = JDict
        [(''global_rules'', JDict [(''always_blocked'', JList [JStr ''delete_database''])]),
         (''modes'', JDict
            [(''EMERGENCY'', JDict
               [(''allowed_tools'', JList [JStr ''read_logs'', JStr ''delete_database'']),
                (''blocked_tools'', JList [])])])],
      current_mode = ''EMERGENCY''\<rparr>
     ''delete_database'' None None =
   Inl (PolicyViolationError
          [Text (''Tool '' @ quoted ''delete_database'' @
                 '' is globally blocked and can never be executed'')]
          ''delete_database'' ''EMERGENCY'' ''Globally blocked - destructive operation'')"
  (is "validate ?e ?t _ _ = _")
proof -
  let ?always_blocked = "JList [JStr ''delete_database'']"
  let ?global_rules = "JDict [(''always_blocked'', ?always_blocked)]"
  have 1: "getitem (policy ?e) ''global_rules'' = Inr ?global_rules" by simp
  have 2: "getitem ?global_rules ''always_blocked'' = Inr ?always_blocked" by simp
  have 3: "contains ?always_blocked ?t = Inr True" by simp
  show ?thesis using validate_globally_blocked [OF 1 2 3] by simp
qed

text \<open>
  C3. A tool that is not globally blocked and is in the \<^verbatim>\<open>blocked_tools\<close> of the current
  mode is denied with the reason "Blocked in <mode> mode", and the message ends with the
  mode's rationale. Nothing is assumed of what \<^verbatim>\<open>allowed_tools\<close> holds, so the tool may be
  listed there too: the blocked list is tested first. The mode's rules are a dict with
  the keys \<^verbatim>\<open>allowed_tools\<close>, \<^verbatim>\<open>blocked_tools\<close> and \<^verbatim>\<open>rationale\<close>.
\<close>

theorem validate_blocked_in_mode:
  assumes "getitem (policy e) ''global_rules'' = Inr global_rules"
    and "getitem global_rules ''always_blocked'' = Inr always_blocked"
    and "contains always_blocked t = Inr False"
    and "getitem (policy e) ''modes'' = Inr modes"
    and "getitem modes (current_mode e) = Inr m"
    and "getitem m ''allowed_tools'' = Inr allowed_tools"
    and "getitem m ''blocked_tools'' = Inr blocked_tools"
    and "getitem m ''rationale'' = Inr rationale"
    and "contains blocked_tools t = Inr True"
  shows "validate e t args context =
           Inl (PolicyViolationError
                  [Text (''Tool '' @ quoted t @ '' is blocked in '' @ current_mode e @
                         '' mode. Rationale: ''), Str rationale]
                  t (current_mode e) (''Blocked in '' @ current_mode e @ '' mode''))"
  using assms by (simp add: validate_def)

theorem validate_blocked_in_mode_witness:
  "validate
     \<lparr>policy_path = ''policies/ops_policy.json'',
      policy = JDict
        [(''global_rules'', JDict [(''always_blocked'', JList [JStr ''delete_database''])]),
         (''modes'', JDict
            [(''NORMAL'', JDict
               [(''rationale'', JStr ''Read-only while healthy''),
                (''allowed_tools'', JList [JStr ''read_logs'', JStr ''restart_service'']),
                (''blocked_tools'', JList [JStr ''restart_service''])])])],
      current_mode = ''NORMAL''\<rparr>
     ''restart_service'' None None =
   Inl (PolicyViolationError
          [Text (''Tool '' @ quoted ''restart_service'' @
                 '' is blocked in NORMAL mode. Rationale: ''),
           Str (JStr ''Read-only while healthy'')]
          ''restart_service'' ''NORMAL'' ''Blocked in NORMAL mode'')"
  (is "validate ?e ?t _ _ = _")
proof -
  let ?always_blocked = "JList [JStr ''delete_database'']"
  let ?global_rules = "JDict [(''always_blocked'', ?always_blocked)]"
  let ?allowed_tools = "JList [JStr ''read_logs'', JStr ''restart_service'']"
  let ?blocked_tools = "JList [JStr ''restart_service'']"
  let ?rationale = "JStr ''Read-only while healthy''"
  let ?m = "JDict [(''rationale'', ?rationale), (''allowed_tools'', ?allowed_tools),
                   (''blocked_tools'', ?blocked_tools)]"
  let ?modes = "JDict [(''NORMAL'', ?m)]"
  have 1: "getitem (policy ?e) ''global_rules'' = Inr ?global_rules" by simp
  have 2: "getitem ?global_rules ''always_blocked'' = Inr ?always_blocked" by simp
  have 3: "contains ?always_blocked ?t = Inr False" by simp
  have 4: "getitem (policy ?e) ''modes'' = Inr ?modes" by simp
  have 5: "getitem ?modes (current_mode ?e) = Inr ?m" by simp
  have 6: "getitem ?m ''allowed_tools'' = Inr ?allowed_tools" by simp
  have 7: "getitem ?m ''blocked_tools'' = Inr ?blocked_tools" by simp
  have 8: "getitem ?m ''rationale'' = Inr ?rationale" by simp
  have 9: "contains ?blocked_tools ?t = Inr True" by simp
  show ?thesis using validate_blocked_in_mode [OF 1 2 3 4 5 6 7 8 9] by simp
qed

text \<open>
  C4. A tool that is not globally blocked and is in neither list of the current mode is
  denied with the reason "Not whitelisted for <mode> mode". The mode's rules are a dict
  with the keys \<^verbatim>\<open>allowed_tools\<close> and \<^verbatim>\<open>blocked_tools\<close>.
\<close>

theorem validate_not_whitelisted:
  assumes "getitem (policy e) ''global_rules'' = Inr global_rules"
    and "getitem global_rules ''always_blocked'' = Inr always_blocked"
    and "contains always_blocked t = Inr False"
    and "getitem (policy e) ''modes'' = Inr modes"
    and "getitem modes (current_mode e) = Inr m"
    and "getitem m ''allowed_tools'' = Inr allowed_tools"
    and "getitem m ''blocked_tools'' = Inr blocked_tools"
    and "contains blocked_tools t = Inr False"
    and "contains allowed_tools t = Inr False"
  shows "validate e t args context =
           Inl (PolicyViolationError
                  [Text (''Tool '' @ quoted t @ '' is not in the allowed list for '' @
                         current_mode e @ '' mode'')]
                  t (current_mode e) (''Not whitelisted for '' @ current_mode e @ '' mode''))"
  using assms by (simp add: validate_def)

theorem validate_not_whitelisted_witness:
  "validate
     \<lparr>policy_path = ''policies/ops_policy.json'',
      policy = JDict
        [(''global_rules'', JDict [(''always_blocked'', JList [JStr ''delete_database''])]),
         (''modes'', JDict
            [(''NORMAL'', JDict
               [(''allowed_tools'', JList [JStr ''read_logs'']),
                (''blocked_tools'', JList [JStr ''restart_service''])])])],
      current_mode = ''NORMAL''\<rparr>
     ''unregistered_tool'' None None =
   Inl (PolicyViolationError
          [Text (''Tool '' @ quoted ''unregistered_tool'' @
                 '' is not in the allowed list for NORMAL mode'')]
          ''unregistered_tool'' ''NORMAL'' ''Not whitelisted for NORMAL mode'')"
  (is "validate ?e ?t _ _ = _")
proof -
  let ?always_blocked = "JList [JStr ''delete_database'']"
  let ?global_rules = "JDict [(''always_blocked'', ?always_blocked)]"
  let ?allowed_tools = "JList [JStr ''read_logs'']"
  let ?blocked_tools = "JList [JStr ''restart_service'']"
  let ?m = "JDict [(''allowed_tools'', ?allowed_tools), (''blocked_tools'', ?blocked_tools)]"
  let ?modes = "JDict [(''NORMAL'', ?m)]"
  have 1: "getitem (policy ?e) ''global_rules'' = Inr ?global_rules" by simp
  have 2: "getitem ?global_rules ''always_blocked'' = Inr ?always_blocked" by simp
  have 3: "contains ?always_blocked ?t = Inr False" by simp
  have 4: "getitem (policy ?e) ''modes'' = Inr ?modes" by simp
  have 5: "getitem ?modes (current_mode ?e) = Inr ?m" by simp
  have 6: "getitem ?m ''allowed_tools'' = Inr ?allowed_tools" by simp
  have 7: "getitem ?m ''blocked_tools'' = Inr ?blocked_tools" by simp
  have 8: "contains ?blocked_tools ?t = Inr False" by simp
  have 9: "contains ?allowed_tools ?t = Inr False" by simp
  show ?thesis using validate_not_whitelisted [OF 1 2 3 4 5 6 7 8 9] by simp
qed

text \<open>
  C9. The outcome of \<^verbatim>\<open>validate\<close> is fixed by the tool name, the policy and the current
  mode: two engines with the same policy and the same mode give the same outcome, the same
  exception with the same reason included, for any two values of \<^verbatim>\<open>args\<close> and \<^verbatim>\<open>context\<close>,
  given or omitted. \<^verbatim>\<open>validate\<close> assigns to nothing, so a repeated call is the same call.
\<close>

theorem validate_deterministic:
  assumes "policy e = policy e'" and "current_mode e = current_mode e'"
  shows "validate e t args context = validate e' t args' context'"
  unfolding validate_def Let_def assms by (rule refl)

theorem validate_deterministic_witness:
  "validate
     \<lparr>policy_path = ''a.json'',
      policy = JDict
        [(''global_rules'', JDict [(''always_blocked'', JList [])]),
         (''modes'', JDict
            [(''NORMAL'', JDict
               [(''allowed_tools'', JList [JStr ''read_logs'']),
                (''blocked_tools'', JList [])])])],
      current_mode = ''NORMAL''\<rparr>
     ''read_logs'' None None =
   validate
     \<lparr>policy_path = ''b.json'',
      policy = JDict
        [(''global_rules'', JDict [(''always_blocked'', JList [])]),
         (''modes'', JDict
            [(''NORMAL'', JDict
               [(''allowed_tools'', JList [JStr ''read_logs'']),
                (''blocked_tools'', JList [])])])],
      current_mode = ''NORMAL''\<rparr>
     ''read_logs'' (Some [(''lines'', JInt 5)]) (Some [(''caller'', JStr ''agent'')])"
  (is "validate ?e _ _ _ = validate ?e' _ _ _")
proof -
  have 1: "policy ?e = policy ?e'" by simp
  have 2: "current_mode ?e = current_mode ?e'" by simp
  show ?thesis by (rule validate_deterministic [OF 1 2])
qed

section \<open>Modes\<close>

text \<open>
  C5. With \<^verbatim>\<open>modes\<close> a dict: for a mode that is not one of its keys, \<^verbatim>\<open>set_mode\<close> raises a
  \<^verbatim>\<open>ValueError\<close> that names the mode and lists the keys, and leaves the engine as it was,
  so every later read and decision sees the mode of before the call; for a mode that is a
  key, it leaves the engine with that mode as the current one.
\<close>

theorem set_mode_checks_modes:
  assumes "getitem (policy e) ''modes'' = Inr (JDict ms)"
  shows "(m \<notin> set (map fst ms) \<longrightarrow>
            set_mode e m =
              (Inl (ValueError [Text (''Invalid mode: '' @ m @ ''. Available: ''),
                                Str (JList (map (JStr \<circ> fst) ms))]), e))
       \<and> (m \<notin> set (map fst ms) \<longrightarrow>
            get_current_mode (snd (set_mode e m)) = get_current_mode e)
       \<and> (m \<in> set (map fst ms) \<longrightarrow>
            snd (set_mode e m) = e\<lparr>current_mode := m\<rparr>
            \<and> get_current_mode (snd (set_mode e m)) = m)"
  using assms
  by (auto simp add: set_mode_def get_current_mode_def Let_def split: sum.splits)

theorem set_mode_checks_modes_witness:
  "set_mode
     \<lparr>policy_path = ''policies/ops_policy.json'',
      policy = JDict
        [(''modes'', JDict
            [(''NORMAL'', JDict [(''description'', JStr ''Read-only'')]),
             (''EMERGENCY'', JDict [(''description'', JStr ''Incident response'')])])],
      current_mode = ''NORMAL''\<rparr>
     ''MAINTENANCE'' =
   (Inl (ValueError [Text ''Invalid mode: MAINTENANCE. Available: '',
                     Str (JList [JStr ''NORMAL'', JStr ''EMERGENCY''])]),
    \<lparr>policy_path = ''policies/ops_policy.json'',
      policy = JDict
        [(''modes'', JDict
            [(''NORMAL'', JDict [(''description'', JStr ''Read-only'')]),
             (''EMERGENCY'', JDict [(''description'', JStr ''Incident response'')])])],
      current_mode = ''NORMAL''\<rparr>)
   \<and> current_mode (snd (set_mode
     \<lparr>policy_path = ''policies/ops_policy.json'',
      policy = JDict
        [(''modes'', JDict
            [(''NORMAL'', JDict [(''description'', JStr ''Read-only'')]),
             (''EMERGENCY'', JDict [(''description'', JStr ''Incident response'')])])],
      current_mode = ''NORMAL''\<rparr>
     ''EMERGENCY'')) = ''EMERGENCY''"
  (is "set_mode ?e _ = _ \<and> _")
proof -
  let ?ms = "[(''NORMAL'', JDict [(''description'', JStr ''Read-only'')]),
              (''EMERGENCY'', JDict [(''description'', JStr ''Incident response'')])]"
  have 1: "getitem (policy ?e) ''modes'' = Inr (JDict ?ms)" by simp
  show ?thesis
    using set_mode_checks_modes [OF 1, of "''MAINTENANCE''"]
      set_mode_checks_modes [OF 1, of "''EMERGENCY''"]
    by (simp add: get_current_mode_def)
qed

section \<open>Loading\<close>

text \<open>
  C6. The load raises \<^verbatim>\<open>FileNotFoundError\<close> when the path has no file, the decoder's
  error when the text is not JSON, and \<^verbatim>\<open>AttributeError\<close> when the document is not an
  object; the constructor then raises too and no engine exists to serve a request. A
  document that is an object is taken as it is: the load looks for no key in it, and the
  engine is constructed whether or not \<^verbatim>\<open>modes\<close> and \<^verbatim>\<open>global_rules\<close> are there.
\<close>

theorem load_policy_outcomes:
  "(fs path = None \<longrightarrow>
      PolicyEngine fs path = Inl (FileNotFoundError (''Policy file not found: '' @ path)))
   \<and> (fs path = Some Malformed \<longrightarrow> PolicyEngine fs path = Inl JSONDecodeError)
   \<and> (fs path = Some (Parsed p) \<and> (\<forall>kvs. p \<noteq> JDict kvs) \<longrightarrow>
        PolicyEngine fs path = Inl AttributeError)
   \<and> (fs path = Some (Parsed (JDict kvs)) \<longrightarrow>
        PolicyEngine fs path =
          Inr \<lparr>policy_path = path, policy = JDict kvs, current_mode = ''NORMAL''\<rparr>)"
  by (cases p) (simp_all add: PolicyEngine_def load_policy_def)

theorem load_policy_outcomes_witness:
  "PolicyEngine Map.empty ''ops_policy.json'' =
     Inl (FileNotFoundError ''Policy file not found: ops_policy.json'')
   \<and> PolicyEngine [''ops_policy.json'' \<mapsto> Malformed] ''ops_policy.json'' = Inl JSONDecodeError
   \<and> PolicyEngine [''ops_policy.json'' \<mapsto> Parsed (JList [])] ''ops_policy.json'' =
       Inl AttributeError
   \<and> PolicyEngine
         [''ops_policy.json'' \<mapsto>
            Parsed (JDict [(''global_rules'', JDict [(''always_blocked'', JList [])]),
                           (''modes'', JDict [])])]
         ''ops_policy.json'' =
       Inr \<lparr>policy_path = ''ops_policy.json'',
            policy = JDict [(''global_rules'', JDict [(''always_blocked'', JList [])]),
                            (''modes'', JDict [])],
            current_mode = ''NORMAL''\<rparr>"
  using load_policy_outcomes [of Map.empty "''ops_policy.json''"]
    load_policy_outcomes [of "[''ops_policy.json'' \<mapsto> Malformed]" "''ops_policy.json''"]
    load_policy_outcomes
      [of "[''ops_policy.json'' \<mapsto> Parsed (JList [])]" "''ops_policy.json''" "JList []"]
    load_policy_outcomes
      [of "[''ops_policy.json'' \<mapsto>
              Parsed (JDict [(''global_rules'', JDict [(''always_blocked'', JList [])]),
                             (''modes'', JDict [])])]"
          "''ops_policy.json''" _
          "[(''global_rules'', JDict [(''always_blocked'', JList [])]), (''modes'', JDict [])]"]
  by simp

text \<open>
  A document with neither \<^verbatim>\<open>modes\<close> nor \<^verbatim>\<open>global_rules\<close> is loaded and the engine is
  constructed.
\<close>

theorem load_accepts_missing_keys_counterexample:
  "PolicyEngine
     [''policies/ops_policy.json'' \<mapsto>
        Parsed (JDict [(''policy_name'', JStr ''Ops''), (''version'', JStr ''1.0'')])]
     ''policies/ops_policy.json'' =
   Inr \<lparr>policy_path = ''policies/ops_policy.json'',
        policy = JDict [(''policy_name'', JStr ''Ops''), (''version'', JStr ''1.0'')],
        current_mode = ''NORMAL''\<rparr>"
  by (simp add: PolicyEngine_def load_policy_def)

section \<open>The current mode in reachable engines\<close>

lemma set_mode_keeps_policy: "policy (snd (set_mode e m)) = policy e"
  by (simp add: set_mode_def Let_def split: sum.splits bool.splits)

lemma set_mode_mode:
  assumes "getitem (policy e) ''modes'' = Inr (JDict ms)"
  shows "current_mode (snd (set_mode e m)) = current_mode e
         \<or> current_mode (snd (set_mode e m)) \<in> set (map fst ms)"
  using assms by (auto simp add: set_mode_def Let_def split: sum.splits bool.splits)

lemma set_mode_preserves_key:
  assumes "getitem (policy e) ''modes'' = Inr (JDict ms)"
    and "current_mode e \<in> set (map fst ms)"
  shows "current_mode (snd (set_mode e m)) \<in> set (map fst ms)"
  using set_mode_mode [OF assms(1), of m] assms(2) by metis

lemma reachable_normal_or_key:
  "reachable fs path e \<Longrightarrow> getitem (policy e) ''modes'' = Inr (JDict ms) \<Longrightarrow>
     current_mode e = ''NORMAL'' \<or> current_mode e \<in> set (map fst ms)"
proof (induction rule: reachable.induct)
  case (constructed e)
  then show ?case by (auto simp add: PolicyEngine_def split: sum.splits)
next
  case (mode_set e m)
  from mode_set.prems have modes: "getitem (policy e) ''modes'' = Inr (JDict ms)"
    by (simp add: set_mode_keeps_policy)
  from mode_set.IH [OF modes] set_mode_mode [OF modes, of m] show ?case by metis
qed

lemma reachable_policy: "reachable fs path e \<Longrightarrow> fs path = Some (Parsed (policy e))"
proof (induction rule: reachable.induct)
  case (constructed e)
  then show ?case
    by (auto simp add: PolicyEngine_def load_policy_def
        split: sum.splits option.splits policy_file.splits json.splits)
next
  case (mode_set e m)
  then show ?case by (simp add: set_mode_keeps_policy)
qed

text \<open>
  C7. The constructor sets the current mode to "NORMAL" whatever the document holds. In
  every reachable engine the policy is the loaded document. Where its \<^verbatim>\<open>modes\<close> is a dict,
  the current mode of every reachable engine is "NORMAL" or a key of \<^verbatim>\<open>modes\<close>; so where
  "NORMAL" is a key of \<^verbatim>\<open>modes\<close>, the current mode of every reachable engine is a key of
  \<^verbatim>\<open>modes\<close>. A call of \<^verbatim>\<open>set_mode\<close> on an engine whose current mode is a key of \<^verbatim>\<open>modes\<close>
  leaves one whose current mode is a key of \<^verbatim>\<open>modes\<close>.
\<close>

theorem current_mode_invariant:
  "(PolicyEngine fs path = Inr e0 \<longrightarrow> current_mode e0 = ''NORMAL'')
   \<and> (reachable fs path e \<longrightarrow> fs path = Some (Parsed (policy e)))
   \<and> (reachable fs path e \<and> getitem (policy e) ''modes'' = Inr (JDict ms) \<longrightarrow>
        current_mode e = ''NORMAL'' \<or> current_mode e \<in> set (map fst ms))
   \<and> (reachable fs path e \<and> getitem (policy e) ''modes'' = Inr (JDict ms)
        \<and> ''NORMAL'' \<in> set (map fst ms) \<longrightarrow>
        current_mode e \<in> set (map fst ms))
   \<and> (getitem (policy e) ''modes'' = Inr (JDict ms) \<and> current_mode e \<in> set (map fst ms) \<longrightarrow>
        getitem (policy (snd (set_mode e m))) ''modes'' = Inr (JDict ms)
        \<and> current_mode (snd (set_mode e m)) \<in> set (map fst ms))"
proof -
  have 1: "PolicyEngine fs path = Inr e0 \<longrightarrow> current_mode e0 = ''NORMAL''"
    by (auto simp add: PolicyEngine_def split: sum.splits)
  have 2: "reachable fs path e \<longrightarrow> fs path = Some (Parsed (policy e))"
    using reachable_policy [of fs path e] by simp
  have 3: "reachable fs path e \<and> getitem (policy e) ''modes'' = Inr (JDict ms) \<longrightarrow>
        current_mode e = ''NORMAL'' \<or> current_mode e \<in> set (map fst ms)"
    using reachable_normal_or_key [of fs path e ms] by simp
  have 4: "reachable fs path e \<and> getitem (policy e) ''modes'' = Inr (JDict ms)
        \<and> ''NORMAL'' \<in> set (map fst ms) \<longrightarrow> current_mode e \<in> set (map fst ms)"
    using reachable_normal_or_key [of fs path e ms] by metis
  have 5: "getitem (policy e) ''modes'' = Inr (JDict ms) \<and> current_mode e \<in> set (map fst ms) \<longrightarrow>
        getitem (policy (snd (set_mode e m))) ''modes'' = Inr (JDict ms)
        \<and> current_mode (snd (set_mode e m)) \<in> set (map fst ms)"
    using set_mode_preserves_key [of e ms m] by (simp add: set_mode_keeps_policy)
  from 1 2 3 4 5 show ?thesis by (intro conjI)
qed

theorem current_mode_invariant_witness:
  "current_mode
     (snd (set_mode
        \<lparr>policy_path = ''ops_policy.json'',
         policy = JDict
           [(''modes'', JDict
              [(''NORMAL'', JDict [(''description'', JStr ''Read-only'')]),
               (''EMERGENCY'', JDict [(''description'', JStr ''Incident response'')])])],
         current_mode = ''NORMAL''\<rparr>
        ''EMERGENCY''))
   \<in> set (map fst
        [(''NORMAL'', JDict [(''description'', JStr ''Read-only'')]),
         (''EMERGENCY'', JDict [(''description'', JStr ''Incident response'')])])"
  (is "current_mode (snd (set_mode ?e0 ?m)) \<in> set (map fst ?ms)")
proof -
  let ?fs = "[''ops_policy.json'' \<mapsto> Parsed (policy ?e0)]"
  have "PolicyEngine ?fs ''ops_policy.json'' = Inr ?e0"
    by (simp add: PolicyEngine_def load_policy_def)
  then have "reachable ?fs ''ops_policy.json'' ?e0" by (rule reachable.constructed)
  then have 1: "reachable ?fs ''ops_policy.json'' (snd (set_mode ?e0 ?m))"
    by (rule reachable.mode_set)
  have 2: "getitem (policy (snd (set_mode ?e0 ?m))) ''modes'' = Inr (JDict ?ms)"
    by (simp add: set_mode_keeps_policy)
  have 3: "''NORMAL'' \<in> set (map fst ?ms)" by simp
  show ?thesis
    using current_mode_invariant
      [of ?fs "''ops_policy.json''" _ "snd (set_mode ?e0 ?m)" ?ms] 1 2 3
    by blast
qed

text \<open>
  With a document whose modes are "SAFE" and "EMERGENCY", the constructed engine has the
  current mode "NORMAL", which is not a key of \<^verbatim>\<open>modes\<close>.
\<close>

theorem initial_mode_not_in_modes_counterexample:
  "reachable
     [''ops_policy.json'' \<mapsto>
        Parsed (JDict
          [(''global_rules'', JDict [(''always_blocked'', JList [JStr ''delete_database''])]),
           (''modes'', JDict
              [(''SAFE'', JDict
                 [(''description'', JStr ''Read-only''), (''rationale'', JStr ''Healthy''),
                  (''allowed_tools'', JList [JStr ''read_logs'']),
                  (''blocked_tools'', JList [JStr ''restart_service''])]),
               (''EMERGENCY'', JDict
                 [(''description'', JStr ''Incident''), (''rationale'', JStr ''Outage''),
                  (''allowed_tools'', JList [JStr ''read_logs'', JStr ''restart_service'']),
                  (''blocked_tools'', JList [])])])])]
     ''ops_policy.json''
     \<lparr>policy_path = ''ops_policy.json'',
      policy = JDict
          [(''global_rules'', JDict [(''always_blocked'', JList [JStr ''delete_database''])]),
           (''modes'', JDict
              [(''SAFE'', JDict
                 [(''description'', JStr ''Read-only''), (''rationale'', JStr ''Healthy''),
                  (''allowed_tools'', JList [JStr ''read_logs'']),
                  (''blocked_tools'', JList [JStr ''restart_service''])]),
               (''EMERGENCY'', JDict
                 [(''description'', JStr ''Incident''), (''rationale'', JStr ''Outage''),
                  (''allowed_tools'', JList [JStr ''read_logs'', JStr ''restart_service'']),
                  (''blocked_tools'', JList [])])])],
      current_mode = ''NORMAL''\<rparr>
   \<and> contains
       (JDict
          [(''SAFE'', JDict
             [(''description'', JStr ''Read-only''), (''rationale'', JStr ''Healthy''),
              (''allowed_tools'', JList [JStr ''read_logs'']),
              (''blocked_tools'', JList [JStr ''restart_service''])]),
           (''EMERGENCY'', JDict
             [(''description'', JStr ''Incident''), (''rationale'', JStr ''Outage''),
              (''allowed_tools'', JList [JStr ''read_logs'', JStr ''restart_service'']),
              (''blocked_tools'', JList [])])])
       ''NORMAL'' = Inr False"
proof
  show "reachable
     [''ops_policy.json'' \<mapsto>
        Parsed (JDict
          [(''global_rules'', JDict [(''always_blocked'', JList [JStr ''delete_database''])]),
           (''modes'', JDict
              [(''SAFE'', JDict
                 [(''description'', JStr ''Read-only''), (''rationale'', JStr ''Healthy''),
                  (''allowed_tools'', JList [JStr ''read_logs'']),
                  (''blocked_tools'', JList [JStr ''restart_service''])]),
               (''EMERGENCY'', JDict
                 [(''description'', JStr ''Incident''), (''rationale'', JStr ''Outage''),
                  (''allowed_tools'', JList [JStr ''read_logs'', JStr ''restart_service'']),
                  (''blocked_tools'', JList [])])])])]
     ''ops_policy.json''
     \<lparr>policy_path = ''ops_policy.json'',
      policy = JDict
          [(''global_rules'', JDict [(''always_blocked'', JList [JStr ''delete_database''])]),
           (''modes'', JDict
              [(''SAFE'', JDict
                 [(''description'', JStr ''Read-only''), (''rationale'', JStr ''Healthy''),
                  (''allowed_tools'', JList [JStr ''read_logs'']),
                  (''blocked_tools'', JList [JStr ''restart_service''])]),
               (''EMERGENCY'', JDict
                 [(''description'', JStr ''Incident''), (''rationale'', JStr ''Outage''),
                  (''allowed_tools'', JList [JStr ''read_logs'', JStr ''restart_service'']),
                  (''blocked_tools'', JList [])])])],
      current_mode = ''NORMAL''\<rparr>"
    by (rule reachable.constructed) (simp add: PolicyEngine_def load_policy_def)
qed simp

section \<open>Requests to the tool server\<close>

lemma tool_map_keys:
  "map fst (tool_map ts) =
     [''get_service_status'', ''read_logs'', ''restart_service'', ''scale_fleet'',
      ''delete_database'', ''list_services'']"
  by (simp add: tool_map_def)

text \<open>
  C2. When the validation raises \<^verbatim>\<open>PolicyViolationError\<close>, \<^verbatim>\<open>execute_tool\<close> returns the
  response with \<^verbatim>\<open>success\<close> false, \<^verbatim>\<open>policy_violation\<close> true, the exception's message as
  \<^verbatim>\<open>blocked_reason\<close> and its reason in \<^verbatim>\<open>error\<close>, and the state the tools act on is the
  one of before the call. This holds for any six tools, also tools that write an audit
  entry on every call: none was called, and the audit trail has no new entry.
\<close>

theorem execute_tool_denied:
  assumes "validate pe (tool_name request) (Some (arguments request)) (request_context request) =
             Inl (PolicyViolationError msg t md reason)"
  shows "execute_tool ts pe request s =
           (Inr \<lparr>success = False, result = None,
                  error = Some [Text (''Policy violation: '' @ reason)],
                  policy_violation = True, blocked_reason = Some msg\<rparr>, s)"
  using assms by (simp add: execute_tool_def)

theorem execute_tool_denied_witness:
  "execute_tool
     \<lparr>tool_get_service_status =
        (\<lambda>args s. (Inr ''status'', log_action s ''12:00'' ''get_service_status'' args)),
      tool_read_logs = (\<lambda>args s. (Inr ''logs'', log_action s ''12:00'' ''read_logs'' args)),
      tool_restart_service =
        (\<lambda>args s. (Inr ''restarted'', log_action s ''12:00'' ''restart_service'' args)),
      tool_scale_fleet = (\<lambda>args s. (Inr ''scaled'', log_action s ''12:00'' ''scale_fleet'' args)),
      tool_delete_database =
        (\<lambda>args s. (Inr ''deleted'', log_action s ''12:00'' ''delete_database'' args)),
      tool_list_services =
        (\<lambda>args s. (Inr ''services'', log_action s ''12:00'' ''list_services'' args))\<rparr>
     \<lparr>policy_path = ''policies/ops_policy.json'',
      policy = JDict
        [(''global_rules'', JDict [(''always_blocked'', JList [JStr ''delete_database''])]),
         (''modes'', JDict
            [(''NORMAL'', JDict
               [(''rationale'', JStr ''Healthy''),
                (''allowed_tools'', JList [JStr ''read_logs'']),
                (''blocked_tools'', JList [JStr ''restart_service''])])])],
      current_mode = ''NORMAL''\<rparr>
     \<lparr>tool_name = ''restart_service'',
      arguments = [(''service_name'', JStr ''web-server'')],
      request_context = Some []\<rparr>
     CloudInfrastructure =
   (Inr \<lparr>success = False, result = None,
          error = Some [Text ''Policy violation: Blocked in NORMAL mode''],
          policy_violation = True,
          blocked_reason =
            Some [Text (''Tool '' @ quoted ''restart_service'' @
                        '' is blocked in NORMAL mode. Rationale: ''),
                  Str (JStr ''Healthy'')]\<rparr>,
    CloudInfrastructure)"
  (is "execute_tool ?ts ?pe ?request ?s = _")
proof -
  have 1: "validate ?pe (tool_name ?request) (Some (arguments ?request))
             (request_context ?request) =
           Inl (PolicyViolationError
                  [Text (''Tool '' @ quoted ''restart_service'' @
                         '' is blocked in NORMAL mode. Rationale: ''),
                   Str (JStr ''Healthy'')]
                  ''restart_service'' ''NORMAL'' ''Blocked in NORMAL mode'')"
    by (simp add: validate_def or_empty_def)
  show ?thesis using execute_tool_denied [OF 1, of ?ts ?s] by simp
qed

text \<open>
  C8. When the validation passes and the tool name is not a key of \<^verbatim>\<open>tool_map\<close>,
  \<^verbatim>\<open>execute_tool\<close> returns the response with \<^verbatim>\<open>success\<close> false and the error
  "Execution error: Unknown tool: <name>", with \<^verbatim>\<open>policy_violation\<close> false and no
  \<^verbatim>\<open>blocked_reason\<close>; no tool was called.
\<close>

theorem execute_tool_unknown_tool:
  assumes "validate pe (tool_name request) (Some (arguments request)) (request_context request) =
             Inr ok"
    and "tool_name request \<notin> set (map fst (tool_map ts))"
  shows "execute_tool ts pe request s =
           (Inr \<lparr>success = False, result = None,
                  error = Some [Text ''Execution error: '',
                                Text (''Unknown tool: '' @ tool_name request)],
                  policy_violation = False, blocked_reason = None\<rparr>, s)"
proof -
  from assms(2) have "map_of (tool_map ts) (tool_name request) = None"
    by (simp add: map_of_eq_None_iff)
  with assms(1) show ?thesis
    by (simp add: execute_tool_def execute_tool_function_def)
qed

theorem execute_tool_unknown_tool_witness:
  "execute_tool
     \<lparr>tool_get_service_status =
        (\<lambda>args s. (Inr ''status'', log_action s ''12:00'' ''get_service_status'' args)),
      tool_read_logs = (\<lambda>args s. (Inr ''logs'', log_action s ''12:00'' ''read_logs'' args)),
      tool_restart_service =
        (\<lambda>args s. (Inr ''restarted'', log_action s ''12:00'' ''restart_service'' args)),
      tool_scale_fleet = (\<lambda>args s. (Inr ''scaled'', log_action s ''12:00'' ''scale_fleet'' args)),
      tool_delete_database =
        (\<lambda>args s. (Inr ''deleted'', log_action s ''12:00'' ''delete_database'' args)),
      tool_list_services =
        (\<lambda>args s. (Inr ''services'', log_action s ''12:00'' ''list_services'' args))\<rparr>
     \<lparr>policy_path = ''policies/ops_policy.json'',
      policy = JDict
        [(''global_rules'', JDict [(''always_blocked'', JList [JStr ''delete_database''])]),
         (''modes'', JDict
            [(''NORMAL'', JDict
               [(''rationale'', JStr ''Healthy''),
                (''allowed_tools'', JList [JStr ''read_logs'', JStr ''flush_cache'']),
                (''blocked_tools'', JList [JStr ''restart_service''])])])],
      current_mode = ''NORMAL''\<rparr>
     \<lparr>tool_name = ''flush_cache'', arguments = [], request_context = None\<rparr>
     CloudInfrastructure =
   (Inr \<lparr>success = False, result = None,
          error = Some [Text ''Execution error: '', Text ''Unknown tool: flush_cache''],
          policy_violation = False, blocked_reason = None\<rparr>,
    CloudInfrastructure)"
  (is "execute_tool ?ts ?pe ?request ?s = _")
proof -
  have 1: "validate ?pe (tool_name ?request) (Some (arguments ?request))
             (request_context ?request) = Inr True"
    by (simp add: validate_def or_empty_def)
  have 2: "tool_name ?request \<notin> set (map fst (tool_map ?ts))"
    by (simp add: tool_map_def)
  show ?thesis using execute_tool_unknown_tool [OF 1 2, of ?s] by simp
qed

section \<open>Scaling the fleet\<close>

text \<open>
  C10. \<^verbatim>\<open>scale_fleet\<close> with a count below 1 or above 100 returns the status "error" and
  leaves the fleet size as it was; with a count from 1 to 100 it returns the status
  "success" with the old and the new size, and the fleet size is the count. In every case
  the services are as they were and the audit trail has one more entry, for this call.
\<close>

theorem scale_fleet_outcomes:
  "(count < 1 \<or> count > 100 \<longrightarrow>
      map_of (fst (scale_fleet infra now now' count)) ''status'' = Some (FStr ''error'')
      \<and> fleet_size (snd (scale_fleet infra now now' count)) = fleet_size infra)
   \<and> (1 \<le> count \<and> count \<le> 100 \<longrightarrow>
      map_of (fst (scale_fleet infra now now' count)) ''status'' = Some (FStr ''success'')
      \<and> map_of (fst (scale_fleet infra now now' count)) ''old_size'' =
          Some (FInt (fleet_size infra))
      \<and> map_of (fst (scale_fleet infra now now' count)) ''new_size'' = Some (FInt count)
      \<and> fleet_size (snd (scale_fleet infra now now' count)) = count)
   \<and> services (snd (scale_fleet infra now now' count)) = services infra
   \<and> execution_log (snd (scale_fleet infra now now' count)) =
       execution_log infra @
         [\<lparr>timestamp = now, action = ''scale_fleet'',
           details = [(''target_count'', JInt count)]\<rparr>]"
  by (simp add: scale_fleet_def log_action_def Let_def)

theorem scale_fleet_outcomes_witness:
  "map_of (fst (scale_fleet CloudInfrastructure ''12:00'' ''12:01'' 0)) ''status'' =
     Some (FStr ''error'')
   \<and> fleet_size (snd (scale_fleet CloudInfrastructure ''12:00'' ''12:01'' 0)) = 3
   \<and> map_of (fst (scale_fleet CloudInfrastructure ''12:00'' ''12:01'' 101)) ''status'' =
     Some (FStr ''error'')
   \<and> fleet_size (snd (scale_fleet CloudInfrastructure ''12:00'' ''12:01'' 101)) = 3
   \<and> map_of (fst (scale_fleet CloudInfrastructure ''12:00'' ''12:01'' 5)) ''status'' =
     Some (FStr ''success'')
   \<and> map_of (fst (scale_fleet CloudInfrastructure ''12:00'' ''12:01'' 5)) ''old_size'' =
     Some (FInt 3)
   \<and> map_of (fst (scale_fleet CloudInfrastructure ''12:00'' ''12:01'' 5)) ''new_size'' =
     Some (FInt 5)
   \<and> fleet_size (snd (scale_fleet CloudInfrastructure ''12:00'' ''12:01'' 5)) = 5"
  using scale_fleet_outcomes [of 0 CloudInfrastructure "''12:00''" "''12:01''"]
    scale_fleet_outcomes [of 101 CloudInfrastructure "''12:00''" "''12:01''"]
    scale_fleet_outcomes [of 5 CloudInfrastructure "''12:00''" "''12:01''"]
  by (simp add: CloudInfrastructure_def)

end
